theory Spec2Isabelle
  imports Main
begin

section \<open>Account REST service: data model\<close>

text \<open>
  The request handlers of \<^verbatim>\<open>service/routes.py\<close> are embedded as functions from a store and
  a request to a result and a store. The handlers call the \<^verbatim>\<open>Account\<close> class of
  \<^verbatim>\<open>service/models.py\<close> and rely on the application's error handlers; both are modelled from
  the specification and marked as such.
\<close>

subsection \<open>JSON values\<close>

text \<open>The value that \<^verbatim>\<open>request.get_json()\<close> hands to a handler; \<open>JNull\<close> is Python's
  \<^verbatim>\<open>None\<close>. An object is a dictionary, written as an association list.\<close>

datatype json =
    JNull
  | JBool bool
  | JNum int
  | JStr string
  | JArr "json list"
  | JObj "(string \<times> json) list"

subsection \<open>Calendar dates\<close>

datatype date = Date nat nat nat

definition digit_chars :: string where
  "digit_chars = ''0123456789''"

fun index_of :: "char \<Rightarrow> string \<Rightarrow> nat option" where
  "index_of c [] = None"
| "index_of c (d # ds) =
     (if c = d then Some 0 else map_option Suc (index_of c ds))"

definition digit_value :: "char \<Rightarrow> nat option" where
  "digit_value c = index_of c digit_chars"

text \<open>Reads a string of decimal digits, most significant first; \<open>None\<close> when the string is
  empty or holds any other character.\<close>

fun digits_from :: "nat \<Rightarrow> string \<Rightarrow> nat option" where
  "digits_from acc [] = Some acc"
| "digits_from acc (c # cs) =
     (case digit_value c of
        None \<Rightarrow> None
      | Some d \<Rightarrow> digits_from (10 * acc + d) cs)"

definition decimal :: "string \<Rightarrow> nat option" where
  "decimal s = (if s = [] then None else digits_from 0 s)"

definition is_leap :: "nat \<Rightarrow> bool" where
  "is_leap y \<longleftrightarrow> y mod 4 = 0 \<and> (y mod 100 \<noteq> 0 \<or> y mod 400 = 0)"

definition days_in_month :: "nat \<Rightarrow> nat \<Rightarrow> nat" where
  "days_in_month y m =
     (if m = 2 then (if is_leap y then 29 else 28)
      else if m = 4 \<or> m = 6 \<or> m = 9 \<or> m = 11 then 30
      else 31)"

definition valid_date :: "nat \<Rightarrow> nat \<Rightarrow> nat \<Rightarrow> bool" where
  "valid_date y m d \<longleftrightarrow>
     1 \<le> y \<and> y \<le> 9999 \<and> 1 \<le> m \<and> m \<le> 12 \<and> 1 \<le> d \<and> d \<le> days_in_month y m"

text \<open>Modelled from the spec: the parser of the ISO-8601 date string that
  \<^verbatim>\<open>deserialize\<close> applies to \<^verbatim>\<open>date_joined\<close>. The calendar form \<^verbatim>\<open>YYYY-MM-DD\<close> is
  accepted; anything else is not a date.\<close>

definition fromisoformat :: "string \<Rightarrow> date option" where
  "fromisoformat s =
     (if length s = 10 \<and> s ! 4 = CHR ''-'' \<and> s ! 7 = CHR ''-'' then
        (case (decimal (take 4 s), decimal (take 2 (drop 5 s)), decimal (drop 8 s)) of
           (Some y, Some m, Some d) \<Rightarrow> if valid_date y m d then Some (Date y m d) else None
         | _ \<Rightarrow> None)
      else None)"

definition digit_char :: "nat \<Rightarrow> char" where
  "digit_char n = digit_chars ! (n mod 10)"

text \<open>Modelled from the spec: the ISO-8601 string that \<^verbatim>\<open>serialize\<close> writes for a date.\<close>

fun isoformat :: "date \<Rightarrow> string" where
  "isoformat (Date y m d) =
     [digit_char (y div 1000), digit_char (y div 100), digit_char (y div 10), digit_char y]
     @ ''-'' @ [digit_char (m div 10), digit_char m]
     @ ''-'' @ [digit_char (d div 10), digit_char d]"

subsection \<open>Accounts and the store\<close>

text \<open>The attributes that a request body supplies.\<close>

record attributes =
  name :: string
  email :: string
  address :: string
  phone_number :: string
  date_joined :: date

text \<open>A persisted account: the attributes and the identifier the store assigned.\<close>

record account = attributes +
  account_id :: int

text \<open>Modelled from the spec: the Account table behind \<^verbatim>\<open>service/models.py\<close>, its rows in
  storage order, and the next identifier the store will assign.\<close>

record store =
  rows :: "account list"
  next_id :: int

definition empty_store :: store where
  "empty_store = \<lparr>rows = [], next_id = 1\<rparr>"

text \<open>The argument of \<^verbatim>\<open>Account.find\<close>: the integer that an \<^verbatim>\<open>int\<close> route converter
  produced, or the raw text of a path segment.\<close>

datatype key = IntKey int | StrKey string

text \<open>Modelled from the spec: the identifier a key denotes. A textual key denotes the
  identifier whose decimal numeral it is, and no identifier otherwise.\<close>

fun key_id :: "key \<Rightarrow> int option" where
  "key_id (IntKey i) = Some i"
| "key_id (StrKey s) = map_option int (decimal s)"

text \<open>Modelled from the spec: \<^verbatim>\<open>Account.find(id)\<close> returns the matching account or a
  not-found indicator, and raises nothing when the identifier is absent.\<close>

definition Account_find :: "store \<Rightarrow> key \<Rightarrow> account option" where
  "Account_find st k =
     (case key_id k of
        None \<Rightarrow> None
      | Some i \<Rightarrow> find (\<lambda>a. account_id a = i) (rows st))"

text \<open>Modelled from the spec: \<^verbatim>\<open>Account.all()\<close> returns every stored account.\<close>

definition Account_all :: "store \<Rightarrow> account list" where
  "Account_all st = rows st"

text \<open>Modelled from the spec: \<^verbatim>\<open>account.create()\<close> persists the attributes and assigns a
  new unique identifier.\<close>

definition Account_create :: "store \<Rightarrow> attributes \<Rightarrow> account \<times> store" where
  "Account_create st f =
     (let a = \<lparr>name = name f, email = email f, address = address f,
                phone_number = phone_number f, date_joined = date_joined f,
                account_id = next_id st\<rparr>
      in (a, st\<lparr>rows := rows st @ [a], next_id := next_id st + 1\<rparr>))"

text \<open>Modelled from the spec: \<^verbatim>\<open>account.update()\<close> overwrites the stored record that has
  the account's identifier.\<close>

definition Account_update :: "store \<Rightarrow> account \<Rightarrow> store" where
  "Account_update st a =
     st\<lparr>rows := map (\<lambda>r. if account_id r = account_id a then a else r) (rows st)\<rparr>"

text \<open>Modelled from the spec: \<^verbatim>\<open>account.delete()\<close> removes the stored record that has the
  account's identifier, and does nothing when there is none.\<close>

definition Account_delete :: "store \<Rightarrow> account \<Rightarrow> store" where
  "Account_delete st a =
     st\<lparr>rows := filter (\<lambda>r. account_id r \<noteq> account_id a) (rows st)\<rparr>"

text \<open>Modelled from the spec: \<^verbatim>\<open>account.serialize()\<close> gives the identifier as an integer,
  the date as an ISO-8601 string and the other attributes as strings.\<close>

definition serialize :: "account \<Rightarrow> json" where
  "serialize a =
     JObj [(''id'', JNum (account_id a)),
           (''name'', JStr (name a)),
           (''email'', JStr (email a)),
           (''address'', JStr (address a)),
           (''phone_number'', JStr (phone_number a)),
           (''date_joined'', JStr (isoformat (date_joined a)))]"

subsection \<open>Exceptions\<close>

text \<open>What a handler can raise: \<^verbatim>\<open>abort(code, message)\<close>, the validation error of
  \<^verbatim>\<open>deserialize\<close>, and the \<^verbatim>\<open>KeyError\<close> that \<^verbatim>\<open>update_account\<close> catches.\<close>

datatype exn =
    HTTPException nat string
  | DataValidationError string
  | KeyError string

text \<open>A dictionary lookup; a value that is not a dictionary has no keys.\<close>

fun jget :: "json \<Rightarrow> string \<Rightarrow> json option" where
  "jget (JObj kvs) k = map_of kvs k"
| "jget _ k = None"

text \<open>Modelled from the spec: a required attribute of the body; the validation fails when
  the body is not a dictionary, when the key is missing and when its value is not text.\<close>

definition required_text :: "json \<Rightarrow> string \<Rightarrow> exn + string" where
  "required_text data k =
     (case data of
        JObj kvs \<Rightarrow>
          (case map_of kvs k of
             None \<Rightarrow> Inl (DataValidationError (''Invalid Account: missing '' @ k))
           | Some (JStr s) \<Rightarrow> Inr s
           | Some _ \<Rightarrow> Inl (DataValidationError (''Invalid Account: bad value for '' @ k)))
      | _ \<Rightarrow> Inl (DataValidationError ''Invalid Account: body of request contained bad or no data''))"

text \<open>Modelled from the spec: \<^verbatim>\<open>date_joined\<close> defaults to the current date when absent,
  and is parsed from the ISO-8601 string otherwise.\<close>

definition joined_date :: "date \<Rightarrow> json \<Rightarrow> exn + date" where
  "joined_date tdy data =
     (case jget data ''date_joined'' of
        None \<Rightarrow> Inr tdy
      | Some (JStr s) \<Rightarrow>
          (case fromisoformat s of
             Some d \<Rightarrow> Inr d
           | None \<Rightarrow> Inl (DataValidationError ''Invalid Account: bad value for date_joined''))
      | Some _ \<Rightarrow> Inl (DataValidationError ''Invalid Account: bad value for date_joined''))"

text \<open>Sequencing of steps that may raise.\<close>

definition and_then :: "exn + 'a \<Rightarrow> ('a \<Rightarrow> exn + 'b) \<Rightarrow> exn + 'b" where
  "and_then r k = (case r of Inl e \<Rightarrow> Inl e | Inr x \<Rightarrow> k x)"

text \<open>Modelled from the spec: \<^verbatim>\<open>account.deserialize(mapping)\<close> reads the attributes from a
  key/value mapping and fails with a validation error when a required attribute (name,
  email, address, phone_number) is missing or of the wrong shape. The first argument is the
  current date.\<close>

definition deserialize :: "date \<Rightarrow> json \<Rightarrow> exn + attributes" where
  "deserialize tdy data =
     and_then (required_text data ''name'') (\<lambda>n.
     and_then (required_text data ''email'') (\<lambda>e.
     and_then (required_text data ''address'') (\<lambda>ad.
     and_then (required_text data ''phone_number'') (\<lambda>p.
     and_then (joined_date tdy data) (\<lambda>d.
       Inr \<lparr>name = n, email = e, address = ad, phone_number = p, date_joined = d\<rparr>)))))"

text \<open>The effect of a successful \<^verbatim>\<open>deserialize\<close> on an account that already has an
  identifier: the attributes are overwritten, the identifier is kept.\<close>

definition populate :: "account \<Rightarrow> attributes \<Rightarrow> account" where
  "populate a f =
     a\<lparr>name := name f, email := email f, address := address f,
       phone_number := phone_number f, date_joined := date_joined f\<rparr>"

section \<open>The request handlers\<close>

subsection \<open>Requests and responses\<close>

datatype http_method = GET | POST | PUT | DELETE | PATCH

text \<open>A request as a handler sees it: the verb, the path split at its slashes, the
  \<^verbatim>\<open>Content-Type\<close> header (if any), the value of \<^verbatim>\<open>request.get_json()\<close>, and the date on
  which the request is served.\<close>

record request =
  req_method :: http_method
  path :: "string list"
  content_type :: "string option"
  get_json :: json
  today :: date

datatype body = JsonBody json | TextBody string

record response =
  status :: nat
  body :: body
  headers :: "(string \<times> string) list"

abbreviation HTTP_200_OK :: nat where "HTTP_200_OK \<equiv> 200"
abbreviation HTTP_201_CREATED :: nat where "HTTP_201_CREATED \<equiv> 201"
abbreviation HTTP_204_NO_CONTENT :: nat where "HTTP_204_NO_CONTENT \<equiv> 204"
abbreviation HTTP_400_BAD_REQUEST :: nat where "HTTP_400_BAD_REQUEST \<equiv> 400"
abbreviation HTTP_404_NOT_FOUND :: nat where "HTTP_404_NOT_FOUND \<equiv> 404"
abbreviation HTTP_405_METHOD_NOT_ALLOWED :: nat where "HTTP_405_METHOD_NOT_ALLOWED \<equiv> 405"
abbreviation HTTP_415_UNSUPPORTED_MEDIA_TYPE :: nat where "HTTP_415_UNSUPPORTED_MEDIA_TYPE \<equiv> 415"
abbreviation HTTP_500_INTERNAL_SERVER_ERROR :: nat where "HTTP_500_INTERNAL_SERVER_ERROR \<equiv> 500"

text \<open>\<^verbatim>\<open>abort(code, message)\<close> raises; it never returns.\<close>

definition abort :: "nat \<Rightarrow> string \<Rightarrow> exn + 'a" where
  "abort code message = Inl (HTTPException code message)"

definition jsonify :: "json \<Rightarrow> nat \<Rightarrow> response" where
  "jsonify j code = \<lparr>status = code, body = JsonBody j, headers = []\<rparr>"

subsection \<open>Handlers\<close>

definition health :: response where
  "health = jsonify (JObj [(''status'', JStr ''OK'')]) HTTP_200_OK"

definition index :: response where
  "index =
     jsonify (JObj [(''name'', JStr ''Account REST API Service''), (''version'', JStr ''1.0'')])
       HTTP_200_OK"

text \<open>The header is accepted when it is present, not empty, and equal to the media type.\<close>

definition check_content_type :: "request \<Rightarrow> string \<Rightarrow> exn + unit" where
  "check_content_type req media_type =
     (case content_type req of
        None \<Rightarrow>
          abort HTTP_415_UNSUPPORTED_MEDIA_TYPE (''Content-Type must be '' @ media_type)
      | Some ct \<Rightarrow>
          if ct \<noteq> [] \<and> ct = media_type then Inr ()
          else abort HTTP_415_UNSUPPORTED_MEDIA_TYPE (''Content-Type must be '' @ media_type))"

definition create_accounts :: "store \<Rightarrow> request \<Rightarrow> (exn + response) \<times> store" where
  "create_accounts st req =
     (case check_content_type req ''application/json'' of
        Inl e \<Rightarrow> (Inl e, st)
      | Inr _ \<Rightarrow>
          (case deserialize (today req) (get_json req) of
             Inl e \<Rightarrow> (Inl e, st)
           | Inr f \<Rightarrow>
               (let (account, st') = Account_create st f;
                    message = serialize account;
                    location_url = ''/''
                in (Inr \<lparr>status = HTTP_201_CREATED, body = JsonBody message,
                         headers = [(''Location'', location_url)]\<rparr>, st'))))"

definition list_accounts :: "store \<Rightarrow> (exn + response) \<times> store" where
  "list_accounts st =
     (let accounts = Account_all st;
          response = map serialize accounts
      in (Inr (jsonify (JArr response) HTTP_200_OK), st))"

definition read_account :: "store \<Rightarrow> string \<Rightarrow> (exn + response) \<times> store" where
  "read_account st ident =
     (case Account_find st (StrKey ident) of
        None \<Rightarrow> (abort HTTP_404_NOT_FOUND (''Account '' @ ident @ '' not found''), st)
      | Some account \<Rightarrow> (Inr (jsonify (serialize account) HTTP_200_OK), st))"

definition update_account :: "store \<Rightarrow> int \<Rightarrow> request \<Rightarrow> (exn + response) \<times> store" where
  "update_account st ident req =
     (case Account_find st (IntKey ident) of
        None \<Rightarrow> (abort HTTP_404_NOT_FOUND ''Account could not be found'', st)
      | Some account \<Rightarrow>
          (case deserialize (today req) (get_json req) of
             Inl (KeyError m) \<Rightarrow> (abort HTTP_400_BAD_REQUEST ''Account Data invalid'', st)
           | Inl e \<Rightarrow> (Inl e, st)
           | Inr f \<Rightarrow>
               (let account' = populate account f;
                    st' = Account_update st account'
                in (Inr (jsonify (serialize account') HTTP_200_OK), st'))))"

definition delete_account :: "store \<Rightarrow> int \<Rightarrow> (exn + response) \<times> store" where
  "delete_account st ident =
     (let st' = (case Account_find st (IntKey ident) of
                   Some account \<Rightarrow> Account_delete st account
                 | None \<Rightarrow> st)
      in (Inr \<lparr>status = HTTP_204_NO_CONTENT, body = TextBody [], headers = []\<rparr>, st'))"

subsection \<open>Routing\<close>

text \<open>The view functions that the route decorators register, with the arguments the URL
  converters extract.\<close>

datatype endpoint =
    Health
  | Index
  | Create_accounts
  | List_accounts
  | Read_account string
  | Update_account int
  | Delete_account int

text \<open>The \<^verbatim>\<open>int\<close> converter of \<^verbatim>\<open><int:id>\<close>: one or more decimal digits.\<close>

definition int_converter :: "string \<Rightarrow> int option" where
  "int_converter seg = map_option int (decimal seg)"

text \<open>The default converter of \<^verbatim>\<open><id>\<close>: any non-empty path segment.\<close>

definition string_converter :: "string \<Rightarrow> string option" where
  "string_converter seg = (if seg = [] then None else Some seg)"

definition method_not_allowed :: "exn + 'a" where
  "method_not_allowed = abort HTTP_405_METHOD_NOT_ALLOWED ''Method Not Allowed''"

definition not_found :: "exn + 'a" where
  "not_found = abort HTTP_404_NOT_FOUND ''Not Found''"

text \<open>The URL map: a path that no rule matches is not found; a path that some rule matches,
  but none for the request's verb, is a 405 error.\<close>

definition route :: "http_method \<Rightarrow> string list \<Rightarrow> exn + endpoint" where
  "route m p =
     (if p = [''health''] then (if m = GET then Inr Health else method_not_allowed)
      else if p = [] then (if m = GET then Inr Index else method_not_allowed)
      else if p = [''accounts''] then
        (if m = POST then Inr Create_accounts
         else if m = GET then Inr List_accounts
         else method_not_allowed)
      else if length p = 2 \<and> hd p = ''accounts'' then
        (case string_converter (p ! 1) of
           None \<Rightarrow> not_found
         | Some seg \<Rightarrow>
             if m = GET then Inr (Read_account seg)
             else if m = PUT then
               (case int_converter seg of
                  Some i \<Rightarrow> Inr (Update_account i)
                | None \<Rightarrow> method_not_allowed)
             else if m = DELETE then
               (case int_converter seg of
                  Some i \<Rightarrow> Inr (Delete_account i)
                | None \<Rightarrow> method_not_allowed)
             else method_not_allowed)
      else not_found)"

definition dispatch :: "store \<Rightarrow> request \<Rightarrow> endpoint \<Rightarrow> (exn + response) \<times> store" where
  "dispatch st req ep =
     (case ep of
        Health \<Rightarrow> (Inr health, st)
      | Index \<Rightarrow> (Inr index, st)
      | Create_accounts \<Rightarrow> create_accounts st req
      | List_accounts \<Rightarrow> list_accounts st
      | Read_account ident \<Rightarrow> read_account st ident
      | Update_account ident \<Rightarrow> update_account st ident req
      | Delete_account ident \<Rightarrow> delete_account st ident)"

text \<open>Modelled from the spec: the application's error handlers, which are not part of
  \<^verbatim>\<open>routes.py\<close>. Every error is surfaced as its HTTP status with a message body: an abort
  with its own code, a validation error as 400, anything else as a server error.\<close>

fun error_response :: "exn \<Rightarrow> response" where
  "error_response (HTTPException code message) =
     \<lparr>status = code, body = TextBody message, headers = []\<rparr>"
| "error_response (DataValidationError message) =
     \<lparr>status = HTTP_400_BAD_REQUEST, body = TextBody message, headers = []\<rparr>"
| "error_response (KeyError message) =
     \<lparr>status = HTTP_500_INTERNAL_SERVER_ERROR, body = TextBody message, headers = []\<rparr>"

text \<open>What leaves the application once a handler has returned or raised.\<close>

definition respond :: "(exn + response) \<times> store \<Rightarrow> response \<times> store" where
  "respond out =
     (case out of
        (Inl e, st') \<Rightarrow> (error_response e, st')
      | (Inr r, st') \<Rightarrow> (r, st'))"

text \<open>One request, from routing to the response.\<close>

definition serve :: "store \<Rightarrow> request \<Rightarrow> response \<times> store" where
  "serve st req =
     (case route (req_method req) (path req) of
        Inl e \<Rightarrow> (error_response e, st)
      | Inr ep \<Rightarrow> respond (dispatch st req ep))"

text \<open>A sequence of requests served one after the other: the responses in order and the
  store that is left.\<close>

fun serve_all :: "store \<Rightarrow> request list \<Rightarrow> response list \<times> store" where
  "serve_all st [] = ([], st)"
| "serve_all st (req # reqs) =
     (let (r, st') = serve st req;
          (rs, st'') = serve_all st' reqs
      in (r # rs, st''))"

text \<open>The attributes of a persisted account.\<close>

definition attributes_of :: "account \<Rightarrow> attributes" where
  "attributes_of a =
     \<lparr>name = name a, email = email a, address = address a,
      phone_number = phone_number a, date_joined = date_joined a\<rparr>"

section \<open>Field-for-field agreement\<close>

text \<open>A serialized account agrees with a request body when the four text attributes are the
  body's and, if the body carries a date, so is \<^verbatim>\<open>date_joined\<close>.\<close>

definition text_keys :: "string list" where
  "text_keys = [''name'', ''email'', ''address'', ''phone_number'']"

definition matches_input :: "json \<Rightarrow> json \<Rightarrow> bool" where
  "matches_input input out \<longleftrightarrow>
     (\<forall>k\<in>set text_keys. jget out k = jget input k)
     \<and> (jget input ''date_joined'' \<noteq> None \<longrightarrow> jget out ''date_joined'' = jget input ''date_joined'')"

section \<open>Sample data\<close>

text \<open>A store with one account, a complete request body, and requests served on a fixed day.\<close>

definition ann :: account where
  "ann = \<lparr>name = ''Ann'', email = ''ann@example.com'', address = ''1 Main St'',
          phone_number = ''555-0100'', date_joined = Date 2020 1 15, account_id = 1\<rparr>"

definition one_account :: store where
  "one_account = \<lparr>rows = [ann], next_id = 2\<rparr>"

definition bob_payload :: json where
  "bob_payload =
     JObj [(''name'', JStr ''Bob''), (''email'', JStr ''bob@example.com''),
           (''address'', JStr ''2 High St''), (''phone_number'', JStr ''555-0199''),
           (''date_joined'', JStr ''2021-03-04'')]"

definition request_of :: "http_method \<Rightarrow> string list \<Rightarrow> string option \<Rightarrow> json \<Rightarrow> request" where
  "request_of m p ct b =
     \<lparr>req_method = m, path = p, content_type = ct, get_json = b, today = Date 2024 5 6\<rparr>"

lemmas sample_defs = ann_def one_account_def bob_payload_def request_of_def

lemmas eval_defs =
  decimal_def digit_value_def digit_chars_def digit_char_def
  fromisoformat_def valid_date_def days_in_month_def is_leap_def
  int_converter_def string_converter_def route_def dispatch_def serve_def respond_def
  abort_def jsonify_def method_not_allowed_def not_found_def
  Account_find_def Account_all_def Account_create_def Account_update_def Account_delete_def
  serialize_def deserialize_def and_then_def required_text_def joined_date_def populate_def
  check_content_type_def create_accounts_def list_accounts_def read_account_def
  update_account_def delete_account_def health_def index_def

definition cy_payload :: json where
  "cy_payload =
     JObj [(''name'', JStr ''Cy''), (''email'', JStr ''cy@example.com''),
           (''address'', JStr ''3 Low Rd''), (''phone_number'', JStr ''555-0177'')]"

definition two_posts :: "request list" where
  "two_posts =
     [request_of POST [''accounts''] (Some ''application/json'') bob_payload,
      request_of POST [''accounts''] (Some ''application/json'') cy_payload]"

section \<open>Properties\<close>

subsection \<open>Routing and responses\<close>

lemma decimal_empty: "decimal [] = None"
  by (simp add: decimal_def)

lemma int_converter_nonempty: "int_converter seg = Some i \<Longrightarrow> seg \<noteq> []"
  by (auto simp add: int_converter_def decimal_def)

lemma key_id_segment: "key_id (StrKey seg) = int_converter seg"
  by (simp add: int_converter_def)

lemma route_create: "route POST [''accounts''] = Inr Create_accounts"
  by (simp add: route_def)

lemma route_list: "route GET [''accounts''] = Inr List_accounts"
  by (simp add: route_def)

lemma route_read: "seg \<noteq> [] \<Longrightarrow> route GET [''accounts'', seg] = Inr (Read_account seg)"
  by (simp add: route_def string_converter_def)

lemma route_update:
  "int_converter seg = Some i \<Longrightarrow> route PUT [''accounts'', seg] = Inr (Update_account i)"
  by (frule int_converter_nonempty) (simp add: route_def string_converter_def)

lemma route_delete:
  "int_converter seg = Some i \<Longrightarrow> route DELETE [''accounts'', seg] = Inr (Delete_account i)"
  by (frule int_converter_nonempty) (simp add: route_def string_converter_def)

lemma route_update_rejects:
  "int_converter seg = None \<Longrightarrow> \<exists>e. route PUT [''accounts'', seg] = Inl e"
  by (simp add: route_def string_converter_def method_not_allowed_def not_found_def abort_def)

lemma route_delete_rejects:
  "int_converter seg = None \<Longrightarrow> \<exists>e. route DELETE [''accounts'', seg] = Inl e"
  by (simp add: route_def string_converter_def method_not_allowed_def not_found_def abort_def)

lemma serve_create:
  "req_method req = POST \<Longrightarrow> path req = [''accounts''] \<Longrightarrow>
   serve st req = respond (create_accounts st req)"
  by (simp add: serve_def route_create dispatch_def)

lemma serve_list:
  "req_method req = GET \<Longrightarrow> path req = [''accounts''] \<Longrightarrow>
   serve st req = respond (list_accounts st)"
  by (simp add: serve_def route_list dispatch_def)

lemma serve_read:
  "req_method req = GET \<Longrightarrow> path req = [''accounts'', seg] \<Longrightarrow> seg \<noteq> [] \<Longrightarrow>
   serve st req = respond (read_account st seg)"
  by (simp add: serve_def route_read dispatch_def)

lemma serve_update:
  "req_method req = PUT \<Longrightarrow> path req = [''accounts'', seg] \<Longrightarrow> int_converter seg = Some i \<Longrightarrow>
   serve st req = respond (update_account st i req)"
  by (simp add: serve_def route_update dispatch_def)

lemma serve_delete:
  "req_method req = DELETE \<Longrightarrow> path req = [''accounts'', seg] \<Longrightarrow> int_converter seg = Some i \<Longrightarrow>
   serve st req = respond (delete_account st i)"
  by (simp add: serve_def route_delete dispatch_def)

lemma respond_raise: "respond (Inl e, st) = (error_response e, st)"
  by (simp add: respond_def)

lemma respond_return: "respond (Inr r, st) = (r, st)"
  by (simp add: respond_def)

lemma respond_abort:
  "respond (abort code msg, st) = (\<lparr>status = code, body = TextBody msg, headers = []\<rparr>, st)"
  by (simp add: respond_def abort_def)

subsection \<open>Deserialization\<close>

lemma deserialize_raises_validation:
  "deserialize tdy data = Inl e \<Longrightarrow> \<exists>m. e = DataValidationError m"
  by (auto simp add: deserialize_def and_then_def required_text_def joined_date_def
      split: sum.splits json.splits option.splits)

lemma deserialize_null: "\<exists>m. deserialize tdy JNull = Inl (DataValidationError m)"
  by (simp add: deserialize_def and_then_def required_text_def)

lemma required_text_value: "required_text data k = Inr s \<Longrightarrow> jget data k = Some (JStr s)"
  by (auto simp add: required_text_def split: json.splits option.splits)

lemma joined_date_value:
  "joined_date tdy data = Inr d \<Longrightarrow>
   (jget data ''date_joined'' = None \<and> d = tdy) \<or>
   (\<exists>s. jget data ''date_joined'' = Some (JStr s) \<and> fromisoformat s = Some d)"
  by (auto simp add: joined_date_def split: json.splits option.splits)

lemma deserialize_values:
  assumes "deserialize tdy data = Inr f"
  shows "jget data ''name'' = Some (JStr (name f))"
    and "jget data ''email'' = Some (JStr (email f))"
    and "jget data ''address'' = Some (JStr (address f))"
    and "jget data ''phone_number'' = Some (JStr (phone_number f))"
    and "(jget data ''date_joined'' = None \<and> date_joined f = tdy) \<or>
         (\<exists>s. jget data ''date_joined'' = Some (JStr s) \<and> fromisoformat s = Some (date_joined f))"
  using assms
  by (auto simp add: deserialize_def and_then_def split: sum.splits
      dest: required_text_value joined_date_value)

subsection \<open>The store\<close>

lemma find_int: "Account_find st (IntKey i) = find (\<lambda>a. account_id a = i) (rows st)"
  by (simp add: Account_find_def)

lemma find_some_id: "Account_find st (IntKey i) = Some a \<Longrightarrow> account_id a = i"
  by (auto simp add: find_int find_Some_iff)

lemma find_some_row: "Account_find st k = Some a \<Longrightarrow> a \<in> set (rows st) \<and> key_id k = Some (account_id a)"
  by (auto simp add: Account_find_def find_Some_iff split: option.splits)

lemma find_none_int: "Account_find st (IntKey i) = None \<longleftrightarrow> (\<forall>a\<in>set (rows st). account_id a \<noteq> i)"
  by (auto simp add: find_int find_None_iff)

text \<open>C1. A PUT to \<^verbatim>\<open>/accounts/{id}\<close> for an account that exists, with a body that fails
  deserialization (a JSON null body among them), is answered with status 400.\<close>

theorem update_invalid_body_400:
  assumes "req_method req = PUT" and "path req = [''accounts'', seg]"
    and "int_converter seg = Some i"
    and "Account_find st (IntKey i) = Some a"
    and "get_json req = JNull \<or> (\<exists>e. deserialize (today req) (get_json req) = Inl e)"
  shows "status (fst (serve st req)) = HTTP_400_BAD_REQUEST"
proof -
  from assms(5) obtain e where "deserialize (today req) (get_json req) = Inl e"
    using deserialize_null [of "today req"] by auto
  moreover from this obtain m where "e = DataValidationError m"
    using deserialize_raises_validation by blast
  ultimately have "update_account st i req = (Inl (DataValidationError m), st)"
    using assms(4) by (simp add: update_account_def)
  then show ?thesis
    using assms(1-3) by (simp add: serve_update respond_raise)
qed

theorem update_invalid_body_400_witness:
  "status (fst (serve one_account (request_of PUT [''accounts'', ''1''] None JNull))) = 400
   \<and> status (fst (serve one_account (request_of PUT [''accounts'', ''1''] None
        (JObj [(''name'', JStr ''not enough data'')])))) = 400"
proof -
  have 1: "int_converter ''1'' = Some 1"
    by (simp add: eval_defs sample_defs)
  have 2: "Account_find one_account (IntKey 1) = Some ann"
    by (simp add: eval_defs sample_defs)
  have 3: "\<exists>e. deserialize (Date 2024 5 6) (JObj [(''name'', JStr ''not enough data'')]) = Inl e"
    by (simp add: eval_defs sample_defs)
  show ?thesis
    using update_invalid_body_400 [of "request_of PUT [''accounts'', ''1''] None JNull" "''1''" 1 one_account ann]
      update_invalid_body_400 [of "request_of PUT [''accounts'', ''1''] None
        (JObj [(''name'', JStr ''not enough data'')])" "''1''" 1 one_account ann]
      1 2 3
    by (simp add: request_of_def)
qed

text \<open>C2. A POST to \<^verbatim>\<open>/accounts\<close> whose Content-Type header is not exactly
  \<^verbatim>\<open>application/json\<close>, or is absent, is answered with status 415, whatever the body.\<close>

theorem create_wrong_content_type_415:
  assumes "req_method req = POST" and "path req = [''accounts'']"
    and "content_type req \<noteq> Some ''application/json''"
  shows "status (fst (serve st req)) = HTTP_415_UNSUPPORTED_MEDIA_TYPE"
proof -
  have "\<exists>m. check_content_type req ''application/json'' = Inl (HTTPException 415 m)"
    using assms(3) by (cases "content_type req") (auto simp add: check_content_type_def abort_def)
  then obtain m where "create_accounts st req = (Inl (HTTPException 415 m), st)"
    by (auto simp add: create_accounts_def)
  then show ?thesis
    using assms(1,2) by (simp add: serve_create respond_raise)
qed

theorem create_wrong_content_type_415_witness:
  "status (fst (serve empty_store (request_of POST [''accounts''] (Some ''test/html'') bob_payload))) = 415
   \<and> status (fst (serve empty_store (request_of POST [''accounts''] None bob_payload))) = 415"
  using create_wrong_content_type_415 [of "request_of POST [''accounts''] (Some ''test/html'') bob_payload" empty_store]
    create_wrong_content_type_415 [of "request_of POST [''accounts''] None bob_payload" empty_store]
  by (simp add: request_of_def)

lemma delete_rows:
  "rows (snd (delete_account st i)) = filter (\<lambda>r. account_id r \<noteq> i) (rows st)"
proof (cases "Account_find st (IntKey i)")
  case None
  then have "filter (\<lambda>r. account_id r \<noteq> i) (rows st) = rows st"
    by (simp add: find_none_int)
  with None show ?thesis
    by (simp add: delete_account_def)
next
  case (Some a)
  then show ?thesis
    by (simp add: delete_account_def Account_delete_def find_some_id)
qed

lemma delete_absent: "Account_find st (IntKey i) = None \<Longrightarrow> snd (delete_account st i) = st"
  by (simp add: delete_account_def)

text \<open>C3. A DELETE to \<^verbatim>\<open>/accounts/{id}\<close> with an integer id is answered with status 204 and an
  empty body; the account with that id is gone afterwards, and the store is untouched when
  there was none.\<close>

theorem delete_always_204:
  assumes "req_method req = DELETE" and "path req = [''accounts'', seg]"
    and "int_converter seg = Some i"
  shows "fst (serve st req) = \<lparr>status = HTTP_204_NO_CONTENT, body = TextBody [], headers = []\<rparr>
     \<and> rows (snd (serve st req)) = filter (\<lambda>r. account_id r \<noteq> i) (rows st)
     \<and> Account_find (snd (serve st req)) (IntKey i) = None
     \<and> (Account_find st (IntKey i) = None \<longrightarrow> snd (serve st req) = st)"
proof -
  have s: "serve st req = respond (delete_account st i)"
    using assms by (rule serve_delete)
  have r: "respond (delete_account st i) =
      (\<lparr>status = HTTP_204_NO_CONTENT, body = TextBody [], headers = []\<rparr>, snd (delete_account st i))"
    by (simp add: delete_account_def respond_def)
  have "Account_find (snd (delete_account st i)) (IntKey i) = None"
    by (simp add: find_none_int delete_rows)
  then show ?thesis
    by (simp add: s r delete_rows delete_absent)
qed

theorem delete_always_204_witness:
  "serve one_account (request_of DELETE [''accounts'', ''1''] None JNull) =
     (\<lparr>status = 204, body = TextBody [], headers = []\<rparr>, \<lparr>rows = [], next_id = 2\<rparr>)
   \<and> serve one_account (request_of DELETE [''accounts'', ''7''] None JNull) =
     (\<lparr>status = 204, body = TextBody [], headers = []\<rparr>, one_account)"
proof -
  have 1: "int_converter ''1'' = Some 1" and 7: "int_converter ''7'' = Some 7"
    by (simp_all add: eval_defs sample_defs)
  have n: "Account_find one_account (IntKey 7) = None"
    by (simp add: eval_defs sample_defs)
  have a: "filter (\<lambda>r. account_id r \<noteq> 1) (rows one_account) = []"
    by (simp add: eval_defs sample_defs)
  have e: "\<And>p :: response \<times> store. p = (fst p, snd p)"
    by simp
  have "next_id (snd (serve one_account (request_of DELETE [''accounts'', ''1''] None JNull))) = 2"
    by (simp add: eval_defs sample_defs)
  with delete_always_204 [of "request_of DELETE [''accounts'', ''1''] None JNull" "''1''" 1 one_account]
    delete_always_204 [of "request_of DELETE [''accounts'', ''7''] None JNull" "''7''" 7 one_account]
    1 7 n a
  show ?thesis
    by (simp add: request_of_def prod_eq_iff)
qed

text \<open>C4. A PUT to \<^verbatim>\<open>/accounts/{id}\<close> for an id that no account has is answered with status
  404 and leaves the store as it was.\<close>

theorem update_absent_404:
  assumes "req_method req = PUT" and "path req = [''accounts'', seg]"
    and "int_converter seg = Some i"
    and "Account_find st (IntKey i) = None"
  shows "status (fst (serve st req)) = HTTP_404_NOT_FOUND \<and> snd (serve st req) = st"
  using assms by (simp add: serve_update update_account_def respond_abort)

theorem update_absent_404_witness:
  "status (fst (serve one_account (request_of PUT [''accounts'', ''0''] None bob_payload))) = 404
   \<and> snd (serve one_account (request_of PUT [''accounts'', ''0''] None bob_payload)) = one_account"
proof -
  have 0: "int_converter ''0'' = Some 0"
    by (simp add: eval_defs sample_defs)
  have n: "Account_find one_account (IntKey 0) = None"
    by (simp add: eval_defs sample_defs)
  show ?thesis
    using update_absent_404 [of "request_of PUT [''accounts'', ''0''] None bob_payload" "''0''" 0 one_account] 0 n
    by (simp add: request_of_def)
qed

text \<open>C5. A GET to \<^verbatim>\<open>/accounts/{id}\<close> is answered with status 200 and the serialized account
  when an account with that id exists, and with status 404 otherwise.\<close>

theorem read_200_or_404:
  assumes "req_method req = GET" and "path req = [''accounts'', seg]" and "seg \<noteq> []"
  shows "(\<forall>a. Account_find st (StrKey seg) = Some a \<longrightarrow>
            serve st req = (jsonify (serialize a) HTTP_200_OK, st))
     \<and> (Account_find st (StrKey seg) = None \<longrightarrow>
            status (fst (serve st req)) = HTTP_404_NOT_FOUND \<and> snd (serve st req) = st)"
  using assms by (simp add: serve_read read_account_def respond_abort respond_return)

theorem read_200_or_404_witness:
  "serve one_account (request_of GET [''accounts'', ''1''] None JNull) =
     (\<lparr>status = 200, body = JsonBody (serialize ann), headers = []\<rparr>, one_account)
   \<and> status (fst (serve one_account (request_of GET [''accounts'', ''0''] None JNull))) = 404"
proof -
  have 1: "Account_find one_account (StrKey ''1'') = Some ann"
    by (simp add: eval_defs sample_defs)
  have 0: "Account_find one_account (StrKey ''0'') = None"
    by (simp add: eval_defs sample_defs)
  show ?thesis
    using read_200_or_404 [of "request_of GET [''accounts'', ''1''] None JNull" "''1''" one_account]
      read_200_or_404 [of "request_of GET [''accounts'', ''0''] None JNull" "''0''" one_account] 0 1
    by (simp add: request_of_def jsonify_def)
qed

lemma create_unchanged_unless_created:
  "snd (respond (create_accounts st req)) = st \<or>
   status (fst (respond (create_accounts st req))) = HTTP_201_CREATED"
  by (simp add: create_accounts_def respond_def split: sum.splits prod.splits)

text \<open>C8. A POST to \<^verbatim>\<open>/accounts\<close> that is answered with status 415 or 400 leaves the store
  exactly as it was.\<close>

theorem failed_create_leaves_store:
  assumes "req_method req = POST" and "path req = [''accounts'']"
    and "status (fst (serve st req)) = HTTP_415_UNSUPPORTED_MEDIA_TYPE
       \<or> status (fst (serve st req)) = HTTP_400_BAD_REQUEST"
  shows "snd (serve st req) = st"
  using assms create_unchanged_unless_created [of st req]
  by (auto simp add: serve_create)

theorem failed_create_leaves_store_witness:
  "status (fst (serve one_account (request_of POST [''accounts''] (Some ''test/html'') bob_payload))) = 415
   \<and> snd (serve one_account (request_of POST [''accounts''] (Some ''test/html'') bob_payload)) = one_account
   \<and> status (fst (serve one_account (request_of POST [''accounts''] (Some ''application/json'')
        (JObj [(''name'', JStr ''not enough data'')])))) = 400
   \<and> snd (serve one_account (request_of POST [''accounts''] (Some ''application/json'')
        (JObj [(''name'', JStr ''not enough data'')]))) = one_account"
proof -
  have 1: "status (fst (serve one_account (request_of POST [''accounts''] (Some ''test/html'') bob_payload))) = 415"
    by (simp add: eval_defs sample_defs)
  have 2: "status (fst (serve one_account (request_of POST [''accounts''] (Some ''application/json'')
        (JObj [(''name'', JStr ''not enough data'')])))) = 400"
    by (simp add: eval_defs sample_defs)
  show ?thesis
    using failed_create_leaves_store [of "request_of POST [''accounts''] (Some ''test/html'') bob_payload" one_account]
      failed_create_leaves_store [of "request_of POST [''accounts''] (Some ''application/json'')
        (JObj [(''name'', JStr ''not enough data'')])" one_account] 1 2
    by (simp add: request_of_def)
qed

text \<open>C9. In the PUT handler the existence check comes before the validation of the body: for
  an id that no account has, the answer is the same 404 whatever the body is, also for a
  body that fails deserialization.\<close>

theorem update_checks_existence_first:
  assumes "req_method req = PUT" and "path req = [''accounts'', seg]"
    and "int_converter seg = Some i"
    and "Account_find st (IntKey i) = None"
  shows "serve st req =
       (\<lparr>status = HTTP_404_NOT_FOUND, body = TextBody ''Account could not be found'',
         headers = []\<rparr>, st)
     \<and> (\<forall>req'. req_method req' = PUT \<and> path req' = path req \<longrightarrow> serve st req' = serve st req)"
  using assms by (simp add: serve_update update_account_def respond_abort)

theorem update_checks_existence_first_witness:
  "(\<exists>e. deserialize (Date 2024 5 6) JNull = Inl e)
   \<and> status (fst (serve one_account (request_of PUT [''accounts'', ''0''] None JNull))) = 404
   \<and> serve one_account (request_of PUT [''accounts'', ''0''] None bob_payload)
       = serve one_account (request_of PUT [''accounts'', ''0''] None JNull)"
proof -
  have 0: "int_converter ''0'' = Some 0"
    by (simp add: eval_defs sample_defs)
  have n: "Account_find one_account (IntKey 0) = None"
    by (simp add: eval_defs sample_defs)
  have d: "\<exists>e. deserialize (Date 2024 5 6) JNull = Inl e"
    by (simp add: eval_defs sample_defs)
  show ?thesis
    using update_checks_existence_first [of "request_of PUT [''accounts'', ''0''] None JNull" "''0''" 0 one_account] 0 n d
    by (simp add: request_of_def)
qed

text \<open>C10. The id segment of GET \<^verbatim>\<open>/accounts/{id}\<close> is any non-empty text: a segment that is
  not an integer reaches the read handler and is answered with 404 when no account matches,
  while PUT and DELETE route no such segment to any handler.\<close>

theorem read_route_accepts_any_segment:
  assumes "seg \<noteq> []" and "int_converter seg = None"
    and "req_method req = GET" and "path req = [''accounts'', seg]"
  shows "route GET [''accounts'', seg] = Inr (Read_account seg)
     \<and> (Account_find st (StrKey seg) = None \<longrightarrow> status (fst (serve st req)) = HTTP_404_NOT_FOUND)
     \<and> (\<forall>ep. route PUT [''accounts'', seg] \<noteq> Inr ep)
     \<and> (\<forall>ep. route DELETE [''accounts'', seg] \<noteq> Inr ep)"
  using assms route_update_rejects [of seg] route_delete_rejects [of seg]
  by (auto simp add: route_read serve_read read_account_def respond_abort)

theorem read_route_accepts_any_segment_witness:
  "route GET [''accounts'', ''abc''] = Inr (Read_account ''abc'')
   \<and> status (fst (serve one_account (request_of GET [''accounts'', ''abc''] None JNull))) = 404
   \<and> (\<forall>ep. route PUT [''accounts'', ''abc''] \<noteq> Inr ep)
   \<and> (\<forall>ep. route DELETE [''accounts'', ''abc''] \<noteq> Inr ep)"
proof -
  have c: "int_converter ''abc'' = None"
    by (simp add: eval_defs sample_defs)
  have n: "Account_find one_account (StrKey ''abc'') = None"
    by (simp add: eval_defs sample_defs)
  show ?thesis
    using read_route_accepts_any_segment
      [of "''abc''" "request_of GET [''accounts'', ''abc''] None JNull" one_account] c n
    by (simp add: request_of_def)
qed

subsection \<open>Dates written and read back\<close>

lemma index_of_nth: "index_of c xs = Some n \<Longrightarrow> n < length xs \<and> xs ! n = c"
  by (induction xs arbitrary: n) (auto split: if_splits)

lemma digit_value_char: "digit_value c = Some d \<Longrightarrow> d < 10 \<and> digit_char d = c"
  using index_of_nth [of c digit_chars d]
  by (simp add: digit_value_def digit_char_def) (simp add: digit_chars_def)

lemma digit_char_mod: "digit_char (n mod 10) = digit_char n"
  by (simp add: digit_char_def)

lemma digit_split: "w < 10 \<Longrightarrow> (10 * q + w) div 10 = q \<and> (10 * q + w) mod 10 = (w::nat)"
  by simp

lemma digits_from_two:
  assumes "digits_from q [a, b] = Some n"
  shows "digit_char (n div 10) = a \<and> digit_char n = b \<and> n div 10 div 10 = q"
proof -
  from assms obtain x y where x: "digit_value a = Some x" and y: "digit_value b = Some y"
    and n: "n = 10 * (10 * q + x) + y"
    by (auto split: option.splits)
  from x y have b: "x < 10" "y < 10" and c: "digit_char x = a" "digit_char y = b"
    by (auto dest: digit_value_char)
  have 1: "n div 10 = 10 * q + x" and 2: "n mod 10 = y"
    using digit_split [OF b(2), of "10 * q + x"] by (simp_all only: n)
  have 3: "n div 10 div 10 = q" and 4: "n div 10 mod 10 = x"
    using digit_split [OF b(1), of q] by (simp_all only: 1)
  show ?thesis
    using c 2 3 4 digit_char_mod [of n] digit_char_mod [of "n div 10"] by simp
qed

lemma decimal_two:
  assumes "decimal [a, b] = Some n"
  shows "[digit_char (n div 10), digit_char n] = [a, b]"
  using assms digits_from_two [of 0 a b n] by (simp add: decimal_def)

lemma decimal_four:
  assumes "decimal [a, b, c, d] = Some n"
  shows "[digit_char (n div 1000), digit_char (n div 100), digit_char (n div 10), digit_char n]
         = [a, b, c, d]"
proof -
  from assms obtain q where q: "digits_from 0 [a, b] = Some q" and n: "digits_from q [c, d] = Some n"
    by (auto simp add: decimal_def split: option.splits)
  have 7: "n div 100 = n div 10 div 10" and 8: "n div 1000 = n div 10 div 10 div 10"
    by (simp_all add: div_mult2_eq [symmetric])
  from digits_from_two [OF n] have "n div 100 = q"
    by (simp add: 7)
  moreover have "n div 1000 = n div 100 div 10"
    by (simp add: 7 8)
  ultimately show ?thesis
    using digits_from_two [OF q] digits_from_two [OF n] by simp
qed

lemma ten_chars:
  assumes "length (s :: string) = 10"
  shows "\<exists>a b c d e f g h i j. s = [a, b, c, d, e, f, g, h, i, j]"
  using assms by (simp add: numeral_eq_Suc length_Suc_conv) blast

lemma fromisoformat_isoformat:
  assumes "fromisoformat s = Some dt"
  shows "isoformat dt = s"
proof -
  from assms have len: "length s = 10"
    by (simp add: fromisoformat_def split: if_splits)
  from ten_chars [OF len] obtain a b c d e f g h i j
    where s: "s = [a, b, c, d, e, f, g, h, i, j]"
    by (elim exE) blast
  from assms s obtain y m dd where e: "e = CHR ''-''" and h: "h = CHR ''-''"
    and y: "decimal [a, b, c, d] = Some y" and m: "decimal [f, g] = Some m"
    and dd: "decimal [i, j] = Some dd" and dt: "dt = Date y m dd"
    by (auto simp add: fromisoformat_def split: if_splits option.splits)
  show ?thesis
    using decimal_four [OF y] decimal_two [OF m] decimal_two [OF dd]
    by (simp add: dt s e h)
qed

subsection \<open>Creating and listing\<close>

lemma serialize_matches:
  assumes "deserialize tdy data = Inr (attributes_of a)"
  shows "matches_input data (serialize a)"
  using deserialize_values [OF assms]
  by (auto simp add: matches_input_def text_keys_def serialize_def attributes_of_def
      dest: fromisoformat_isoformat)

lemma attributes_of_create: "attributes_of (fst (Account_create st f)) = f"
  by (simp add: Account_create_def attributes_of_def Let_def)

lemma account_id_create: "account_id (fst (Account_create st f)) = next_id st"
  by (simp add: Account_create_def Let_def)

lemma rows_create: "rows (snd (Account_create st f)) = rows st @ [fst (Account_create st f)]"
  by (simp add: Account_create_def Let_def)

lemma next_id_create: "next_id (snd (Account_create st f)) = next_id st + 1"
  by (simp add: Account_create_def Let_def)

lemma create_201:
  assumes "status (fst (respond (create_accounts st req))) = HTTP_201_CREATED"
  shows "\<exists>f. deserialize (today req) (get_json req) = Inr f
           \<and> snd (respond (create_accounts st req)) = snd (Account_create st f)"
proof (cases "check_content_type req ''application/json''")
  case (Inl e)
  then have "e = HTTPException 415 ''Content-Type must be application/json''"
    by (auto simp add: check_content_type_def abort_def split: option.splits if_splits)
  with Inl assms show ?thesis
    by (simp add: create_accounts_def respond_def)
next
  case (Inr u)
  show ?thesis
  proof (cases "deserialize (today req) (get_json req)")
    case (Inl e)
    then obtain m where "e = DataValidationError m"
      using deserialize_raises_validation by blast
    with Inl Inr assms show ?thesis
      by (simp add: create_accounts_def respond_def)
  next
    case (Inr f)
    with \<open>check_content_type req ''application/json'' = Inr u\<close> show ?thesis
      by (simp add: create_accounts_def respond_def split: prod.splits)
  qed
qed

lemma serve_all_creates:
  assumes "\<forall>r\<in>set reqs. req_method r = POST \<and> path r = [''accounts'']"
    and "\<forall>resp\<in>set (fst (serve_all st reqs)). status resp = HTTP_201_CREATED"
  shows "\<exists>new. rows (snd (serve_all st reqs)) = rows st @ new
           \<and> length new = length reqs
           \<and> (\<forall>k<length reqs.
                 deserialize (today (reqs ! k)) (get_json (reqs ! k)) = Inr (attributes_of (new ! k))
                 \<and> account_id (new ! k) = next_id st + int k)"
  using assms
proof (induction reqs arbitrary: st)
  case Nil
  then show ?case by simp
next
  case (Cons req reqs)
  let ?st1 = "snd (serve st req)"
  have sv: "serve st req = respond (create_accounts st req)"
    using Cons.prems(1) by (simp add: serve_create)
  have all: "serve_all st (req # reqs) =
      (fst (serve st req) # fst (serve_all ?st1 reqs), snd (serve_all ?st1 reqs))"
    by (simp add: split_beta)
  have ok: "status (fst (serve st req)) = HTTP_201_CREATED"
    and rest: "\<forall>resp\<in>set (fst (serve_all ?st1 reqs)). status resp = HTTP_201_CREATED"
    using Cons.prems(2) unfolding all by simp_all
  from ok obtain f where f: "deserialize (today req) (get_json req) = Inr f"
    and st1: "?st1 = snd (Account_create st f)"
    using create_201 [of st req] by (auto simp add: sv)
  let ?a = "fst (Account_create st f)"
  from Cons.prems(1) have "\<forall>r\<in>set reqs. req_method r = POST \<and> path r = [''accounts'']"
    by simp
  from Cons.IH [OF this rest] obtain new where
    new: "rows (snd (serve_all ?st1 reqs)) = rows ?st1 @ new" "length new = length reqs"
    and each: "\<forall>k<length reqs.
        deserialize (today (reqs ! k)) (get_json (reqs ! k)) = Inr (attributes_of (new ! k))
        \<and> account_id (new ! k) = next_id ?st1 + int k"
    by blast
  have "rows (snd (serve_all st (req # reqs))) = rows (snd (serve_all ?st1 reqs))"
    by (simp add: split_beta)
  also have "\<dots> = rows ?st1 @ new"
    by (rule new(1))
  also have "\<dots> = rows st @ (?a # new)"
    by (simp add: st1 rows_create)
  finally have "rows (snd (serve_all st (req # reqs))) = rows st @ (?a # new)" .
  moreover have "length (?a # new) = length (req # reqs)"
    using new(2) by simp
  moreover have "\<forall>k<length (req # reqs).
      deserialize (today ((req # reqs) ! k)) (get_json ((req # reqs) ! k))
        = Inr (attributes_of ((?a # new) ! k))
      \<and> account_id ((?a # new) ! k) = next_id st + int k"
  proof (intro allI impI)
    fix k assume k: "k < length (req # reqs)"
    show "deserialize (today ((req # reqs) ! k)) (get_json ((req # reqs) ! k))
        = Inr (attributes_of ((?a # new) ! k))
      \<and> account_id ((?a # new) ! k) = next_id st + int k"
    proof (cases k)
      case 0
      then show ?thesis
        by (simp add: f attributes_of_create account_id_create)
    next
      case (Suc j)
      with k have "j < length reqs" by simp
      with each show ?thesis
        by (simp add: Suc st1 next_id_create)
    qed
  qed
  ultimately show ?case
    by blast
qed

text \<open>C7. From a store without accounts, after N POSTs to \<^verbatim>\<open>/accounts\<close> that were all
  answered 201, a GET to \<^verbatim>\<open>/accounts\<close> is answered 200 with an array of exactly N serialized
  accounts, the k-th agreeing field for field with the k-th body; with no POST at all the array
  is empty.\<close>

theorem list_after_creates:
  assumes "rows st = []"
    and "\<forall>r\<in>set reqs. req_method r = POST \<and> path r = [''accounts'']"
    and "\<forall>resp\<in>set (fst (serve_all st reqs)). status resp = HTTP_201_CREATED"
    and "req_method g = GET" and "path g = [''accounts'']"
  shows "serve (snd (serve_all st reqs)) g =
       (jsonify (JArr (map serialize (rows (snd (serve_all st reqs))))) HTTP_200_OK,
        snd (serve_all st reqs))
     \<and> length (rows (snd (serve_all st reqs))) = length reqs
     \<and> (\<forall>k<length reqs.
          deserialize (today (reqs ! k)) (get_json (reqs ! k))
            = Inr (attributes_of (rows (snd (serve_all st reqs)) ! k))
          \<and> matches_input (get_json (reqs ! k)) (serialize (rows (snd (serve_all st reqs)) ! k)))"
proof -
  from serve_all_creates [OF assms(2,3)] assms(1) have
    len: "length (rows (snd (serve_all st reqs))) = length reqs"
    and each: "\<forall>k<length reqs.
        deserialize (today (reqs ! k)) (get_json (reqs ! k))
          = Inr (attributes_of (rows (snd (serve_all st reqs)) ! k))"
    by auto
  have "serve (snd (serve_all st reqs)) g =
       (jsonify (JArr (map serialize (rows (snd (serve_all st reqs))))) HTTP_200_OK,
        snd (serve_all st reqs))"
    using assms(4,5) by (simp add: serve_list list_accounts_def Account_all_def respond_return)
  with len each show ?thesis
    by (auto intro: serialize_matches)
qed

theorem list_after_creates_witness:
  "fst (serve (snd (serve_all empty_store two_posts)) (request_of GET [''accounts''] None JNull))
     = jsonify (JArr (map serialize (rows (snd (serve_all empty_store two_posts))))) 200
   \<and> length (rows (snd (serve_all empty_store two_posts))) = 2
   \<and> matches_input bob_payload (serialize (rows (snd (serve_all empty_store two_posts)) ! 0))
   \<and> matches_input cy_payload (serialize (rows (snd (serve_all empty_store two_posts)) ! 1))
   \<and> serve empty_store (request_of GET [''accounts''] None JNull)
       = (jsonify (JArr []) 200, empty_store)"
proof -
  have e: "rows empty_store = []"
    by (simp add: empty_store_def)
  have p: "\<forall>r\<in>set two_posts. req_method r = POST \<and> path r = [''accounts'']"
    by (simp add: two_posts_def request_of_def)
  have s: "\<forall>resp\<in>set (fst (serve_all empty_store two_posts)). status resp = HTTP_201_CREATED"
    by (simp add: eval_defs sample_defs empty_store_def cy_payload_def two_posts_def Let_def)
  have g: "req_method (request_of GET [''accounts''] None JNull) = GET"
    "path (request_of GET [''accounts''] None JNull) = [''accounts'']"
    by (simp_all add: request_of_def)
  have n: "\<forall>r\<in>set []. req_method r = POST \<and> path r = [''accounts'']"
    "\<forall>resp\<in>set (fst (serve_all empty_store [])). status resp = HTTP_201_CREATED"
    by simp_all
  have b: "get_json (two_posts ! 0) = bob_payload" "get_json (two_posts ! 1) = cy_payload"
    "length two_posts = 2"
    by (simp_all add: two_posts_def request_of_def)
  from list_after_creates [OF e p s g] have
    1: "serve (snd (serve_all empty_store two_posts)) (request_of GET [''accounts''] None JNull)
        = (jsonify (JArr (map serialize (rows (snd (serve_all empty_store two_posts))))) 200,
           snd (serve_all empty_store two_posts))"
    and 2: "length (rows (snd (serve_all empty_store two_posts))) = length two_posts"
    and 3: "\<forall>k<length two_posts.
        matches_input (get_json (two_posts ! k))
          (serialize (rows (snd (serve_all empty_store two_posts)) ! k))"
    by blast+
  have m0: "matches_input bob_payload
        (serialize (rows (snd (serve_all empty_store two_posts)) ! 0))"
    using 3 [rule_format, of 0] b by simp
  have m1: "matches_input cy_payload
        (serialize (rows (snd (serve_all empty_store two_posts)) ! 1))"
    using 3 [rule_format, of 1] b by simp
  have e0: "serve empty_store (request_of GET [''accounts''] None JNull)
       = (jsonify (JArr []) 200, empty_store)"
    using list_after_creates [OF e n g] by (simp add: e)
  show ?thesis
    using 1 2 m0 m1 e0 by (simp add: b(3))
qed

subsection \<open>Updating\<close>

lemma find_after_update:
  "find (\<lambda>r. account_id r = i) xs = Some a \<Longrightarrow> account_id a' = i \<Longrightarrow>
   find (\<lambda>r. account_id r = i)
     (map (\<lambda>r. if account_id r = account_id a' then a' else r) xs) = Some a'"
  by (induction xs) (auto split: if_splits)

lemma account_id_populate: "account_id (populate a f) = account_id a"
  by (simp add: populate_def)

lemma attributes_of_populate: "attributes_of (populate a f) = f"
  by (simp add: populate_def attributes_of_def)

lemma find_segment:
  "int_converter seg = Some i \<Longrightarrow> Account_find st (StrKey seg) = Account_find st (IntKey i)"
  by (auto simp add: Account_find_def int_converter_def split: option.splits)

lemma find_updated:
  assumes "Account_find st (IntKey i) = Some a"
  shows "Account_find (Account_update st (populate a f)) (IntKey i) = Some (populate a f)"
proof -
  from assms have 1: "find (\<lambda>r. account_id r = i) (rows st) = Some a"
    by (simp add: find_int)
  from assms have 2: "account_id (populate a f) = i"
    by (simp add: account_id_populate find_some_id)
  show ?thesis
    using find_after_update [OF 1 2] by (simp add: find_int Account_update_def)
qed

lemma update_success:
  assumes "Account_find st (IntKey i) = Some a"
    and "deserialize (today req) (get_json req) = Inr f"
  shows "respond (update_account st i req) =
     (jsonify (serialize (populate a f)) HTTP_200_OK, Account_update st (populate a f))"
  using assms by (simp add: update_account_def respond_def Let_def)

text \<open>C6. A PUT to \<^verbatim>\<open>/accounts/{id}\<close> for an account that exists, with a body that
  deserializes, is answered 200, overwrites name, email, address, phone_number and date_joined
  with the body's values (the current date when the body carries no date) and keeps the
  identifier; a GET of the same id afterwards returns the new values with the original id.\<close>

theorem update_overwrites_attributes:
  assumes "req_method req = PUT" and "path req = [''accounts'', seg]"
    and "int_converter seg = Some i"
    and "Account_find st (IntKey i) = Some a"
    and "deserialize (today req) (get_json req) = Inr f"
    and "req_method g = GET" and "path g = [''accounts'', seg]"
  shows "fst (serve st req) = jsonify (serialize (populate a f)) HTTP_200_OK
     \<and> account_id (populate a f) = account_id a \<and> account_id a = i
     \<and> attributes_of (populate a f) = f
     \<and> matches_input (get_json req) (serialize (populate a f))
     \<and> (jget (get_json req) ''date_joined'' = None \<longrightarrow> date_joined (populate a f) = today req)
     \<and> Account_find (snd (serve st req)) (IntKey i) = Some (populate a f)
     \<and> serve (snd (serve st req)) g
         = (jsonify (serialize (populate a f)) HTTP_200_OK, snd (serve st req))"
proof -
  let ?a = "populate a f" and ?st = "Account_update st (populate a f)"
  have put: "serve st req = (jsonify (serialize ?a) HTTP_200_OK, ?st)"
    using assms(1-5) by (simp add: serve_update update_success)
  have found: "Account_find ?st (IntKey i) = Some ?a"
    using assms(4) by (rule find_updated)
  have "seg \<noteq> []"
    using assms(3) by (rule int_converter_nonempty)
  then have get: "serve ?st g = (jsonify (serialize ?a) HTTP_200_OK, ?st)"
    using assms(6,7) found
    by (simp add: serve_read read_account_def find_segment [OF assms(3)] respond_return)
  have m: "matches_input (get_json req) (serialize ?a)"
    using assms(5) by (intro serialize_matches) (simp add: attributes_of_populate)
  have d: "jget (get_json req) ''date_joined'' = None \<longrightarrow> date_joined ?a = today req"
    using deserialize_values(5) [OF assms(5)] by (auto simp add: populate_def)
  show ?thesis
    using found get m d assms(4)
    by (simp add: put account_id_populate attributes_of_populate find_some_id)
qed

theorem update_overwrites_attributes_witness:
  "serve (snd (serve one_account (request_of PUT [''accounts'', ''1''] None bob_payload)))
       (request_of GET [''accounts'', ''1''] None JNull)
     = (jsonify
          (JObj [(''id'', JNum 1), (''name'', JStr ''Bob''), (''email'', JStr ''bob@example.com''),
                 (''address'', JStr ''2 High St''), (''phone_number'', JStr ''555-0199''),
                 (''date_joined'', JStr ''2021-03-04'')]) 200,
        \<lparr>rows = [\<lparr>name = ''Bob'', email = ''bob@example.com'', address = ''2 High St'',
                  phone_number = ''555-0199'', date_joined = Date 2021 3 4, account_id = 1\<rparr>],
         next_id = 2\<rparr>)"
proof -
  let ?f = "\<lparr>name = ''Bob'', email = ''bob@example.com'', address = ''2 High St'',
             phone_number = ''555-0199'', date_joined = Date 2021 3 4\<rparr>"
  have 1: "int_converter ''1'' = Some 1"
    by (simp add: eval_defs sample_defs)
  have 2: "Account_find one_account (IntKey 1) = Some ann"
    by (simp add: eval_defs sample_defs)
  have 3: "deserialize (today (request_of PUT [''accounts'', ''1''] None bob_payload))
      (get_json (request_of PUT [''accounts'', ''1''] None bob_payload)) = Inr ?f"
    by (simp add: eval_defs sample_defs)
  have 4: "req_method (request_of PUT [''accounts'', ''1''] None bob_payload) = PUT"
    "path (request_of PUT [''accounts'', ''1''] None bob_payload) = [''accounts'', ''1'']"
    "req_method (request_of GET [''accounts'', ''1''] None JNull) = GET"
    "path (request_of GET [''accounts'', ''1''] None JNull) = [''accounts'', ''1'']"
    by (simp_all add: request_of_def)
  have 5: "snd (serve one_account (request_of PUT [''accounts'', ''1''] None bob_payload))
      = \<lparr>rows = [\<lparr>name = ''Bob'', email = ''bob@example.com'', address = ''2 High St'',
                  phone_number = ''555-0199'', date_joined = Date 2021 3 4, account_id = 1\<rparr>],
         next_id = 2\<rparr>"
    by (simp add: eval_defs sample_defs Let_def)
  have 6: "serialize (populate ann ?f)
      = JObj [(''id'', JNum 1), (''name'', JStr ''Bob''), (''email'', JStr ''bob@example.com''),
                 (''address'', JStr ''2 High St''), (''phone_number'', JStr ''555-0199''),
                 (''date_joined'', JStr ''2021-03-04'')]"
    by (simp add: eval_defs sample_defs)
  from update_overwrites_attributes [OF 4(1,2) 1 2 3 4(3,4)]
  have "serve (snd (serve one_account (request_of PUT [''accounts'', ''1''] None bob_payload)))
       (request_of GET [''accounts'', ''1''] None JNull)
     = (jsonify (serialize (populate ann ?f)) HTTP_200_OK,
        snd (serve one_account (request_of PUT [''accounts'', ''1''] None bob_payload)))"
    by blast
  then show ?thesis
    by (simp only: 5 6)
qed

end
